theory Spec2Isabelle
  imports Main
begin

section \<open>Property Portfolio API: a shallow embedding of main.py and schemas.py\<close>

text \<open>
  The handlers of \<^verbatim>\<open>main.py\<close> are modelled as functions that pass the state of the
  outside world (the document store, the mail relay) explicitly and return either an
  exception or a response. Python strings are \<open>string\<close> (a list of characters), Python
  integers are \<open>int\<close>, \<open>None\<close>-able values are \<open>option\<close>.

  Everything the handlers call but do not define is a parameter of the model: the
  environment read by \<^verbatim>\<open>os.getenv\<close>, the header validation of
  \<^verbatim>\<open>email.message.EmailMessage\<close>, the \<^verbatim>\<open>smtplib\<close> session, the store driver and
  \<^verbatim>\<open>database.create_document\<close>. Each effectful parameter maps the state of the world
  to a result and a new state, so that a call that was made can be told from one that
  was not.
\<close>

subsection \<open>Exceptions\<close>

text \<open>The exceptions that reach a handler. \<open>ValueError\<close> keeps the text that was refused,
  \<open>KeyError\<close> the key, \<open>ValidationError\<close> the names of the refused fields, and
  \<open>StoreError\<close> stands for whatever exception a store call raises.\<close>

datatype exn =
    HTTPException int string
  | ValueError string
  | KeyError string
  | ValidationError "string list"
  | StoreError string

subsection \<open>Python truthiness and \<open>or\<close> on optional strings\<close>

fun truthy :: "string option \<Rightarrow> bool" where
  "truthy None = False"
| "truthy (Some s) = (s \<noteq> [])"

definition py_or :: "string option \<Rightarrow> string option \<Rightarrow> string option" where
  "py_or a b = (if truthy a then a else b)"

subsection \<open>\<^verbatim>\<open>int(str)\<close> in base 10\<close>

text \<open>
  A character of a \<open>string\<close> stands for the code point of the same number, 0 to 255.

  \<^verbatim>\<open>int(s)\<close> first replaces every whitespace character beyond ASCII by a blank (below
  256 these are U+0085 and U+00A0), then skips the C whitespace (tab, line feed, vertical
  tab, form feed, carriage return, blank) at both ends, reads an optional sign and then
  decimal digits, where single underscores may stand between digits; anything else
  raises ValueError, modelled as \<open>None\<close>. The separators U+001C to U+001F are not
  skipped. The interpreter's default limit of 4300 digits for the conversion is kept.
\<close>

definition py_isspace :: "char \<Rightarrow> bool" where
  "py_isspace c = (c \<in> set [CHR 0x09, CHR 0x0A, CHR 0x0B, CHR 0x0C, CHR 0x0D, CHR 0x20,
                              CHR 0x85, CHR 0xA0])"

definition py_strip :: "string \<Rightarrow> string" where
  "py_strip s = rev (dropWhile py_isspace (rev (dropWhile py_isspace s)))"

definition digit_value :: "char \<Rightarrow> nat option" where
  "digit_value c = map_of
     [(CHR ''0'', 0), (CHR ''1'', 1), (CHR ''2'', 2), (CHR ''3'', 3), (CHR ''4'', 4),
      (CHR ''5'', 5), (CHR ''6'', 6), (CHR ''7'', 7), (CHR ''8'', 8), (CHR ''9'', 9)] c"

fun parse_digits :: "nat \<Rightarrow> bool \<Rightarrow> string \<Rightarrow> nat option" where
  "parse_digits acc after_digit [] = (if after_digit then Some acc else None)"
| "parse_digits acc after_digit (c # cs) =
     (case digit_value c of
        Some d \<Rightarrow> parse_digits (10 * acc + d) True cs
      | None \<Rightarrow> if c = CHR ''_'' \<and> after_digit then parse_digits acc False cs else None)"

definition int_max_str_digits :: nat where
  "int_max_str_digits = 4300"

definition py_int :: "string \<Rightarrow> int option" where
  "py_int s =
     (let t = py_strip s;
          (neg, body) = (case t of
                           c # cs \<Rightarrow> if c = CHR ''-'' then (True, cs)
                                     else if c = CHR ''+'' then (False, cs)
                                     else (False, t)
                         | [] \<Rightarrow> (False, t))
      in if int_max_str_digits < length (filter (\<lambda>c. digit_value c \<noteq> None) body) then None
         else (case parse_digits 0 False body of
                 None \<Rightarrow> None
               | Some n \<Rightarrow> Some (if neg then - int n else int n)))"

subsection \<open>Validated request bodies (schemas.py)\<close>

record ContactMessage =
  name :: string
  email :: string
  phone :: "string option"
  message :: string

record PortfolioItem =
  title :: "string option"
  category :: string
  src :: string
  caption :: "string option"
  width :: "int option"
  height :: "int option"

datatype model = Contact ContactMessage | Portfolio PortfolioItem

subsection \<open>The mail relay\<close>

record email_message =
  Subject :: string
  From :: string
  To :: string
  content :: string

text \<open>
  One \<^verbatim>\<open>smtplib\<close> session as the source opens it: connect to host and port with the
  timeout, \<^verbatim>\<open>starttls\<close>, \<^verbatim>\<open>login\<close> when credentials are given, \<^verbatim>\<open>send_message\<close>.
\<close>

record smtp_session =
  host :: string
  port :: int
  timeout :: int
  login :: "(string \<times> string) option"
  msg :: email_message

text \<open>What the \<^verbatim>\<open>with smtplib.SMTP(...)\<close> block did: it ran to its end, or some step
  raised an exception \<open>e\<close>, of which \<^verbatim>\<open>str(e)\<close> is kept.\<close>

datatype smtp_outcome = Sent | Raised string

type_synonym 's smtp = "smtp_session \<Rightarrow> 's \<Rightarrow> smtp_outcome \<times> 's"

text \<open>The four assignments to the \<^verbatim>\<open>EmailMessage\<close> (lines 121 to 125) are library calls
  outside the \<^verbatim>\<open>try\<close>; the parameter tells whether one of them raises.\<close>

type_synonym header_check = "email_message \<Rightarrow> exn option"

type_synonym environ = "string \<Rightarrow> string option"

definition send_email_via_smtp ::
  "environ \<Rightarrow> header_check \<Rightarrow> 's smtp \<Rightarrow> string \<Rightarrow> string \<Rightarrow> string \<Rightarrow> 's
     \<Rightarrow> (exn + bool \<times> string) \<times> 's" where
  "send_email_via_smtp getenv set_headers smtp subject body from_email s =
     (let host_v = getenv ''SMTP_HOST'';
          port_str = (case getenv ''SMTP_PORT'' of None \<Rightarrow> ''587'' | Some v \<Rightarrow> v)
      in case py_int port_str of
           None \<Rightarrow> (Inl (ValueError port_str), s)
         | Some port_v \<Rightarrow>
             (let user = getenv ''SMTP_USER'';
                  password = getenv ''SMTP_PASS'';
                  to_email = py_or (getenv ''CONTACT_TO_EMAIL'') (getenv ''TO_EMAIL'')
              in case (host_v, to_email) of
                   (Some h, Some t) \<Rightarrow>
                     if h = [] \<or> t = [] then (Inr (False, ''SMTP not configured''), s)
                     else
                       (let m = \<lparr>Subject = subject, From = from_email, To = t, content = body\<rparr>
                        in case set_headers m of
                             Some e \<Rightarrow> (Inl e, s)
                           | None \<Rightarrow>
                               (case smtp \<lparr>host = h, port = port_v, timeout = 15,
                                           login = (case (user, password) of
                                                      (Some u, Some p) \<Rightarrow>
                                                        if u = [] \<or> p = [] then None else Some (u, p)
                                                    | _ \<Rightarrow> None),
                                           msg = m\<rparr> s of
                                  (Sent, s') \<Rightarrow> (Inr (True, ''sent''), s')
                                | (Raised e, s') \<Rightarrow> (Inr (False, e), s')))
                 | _ \<Rightarrow> (Inr (False, ''SMTP not configured''), s)))"

subsection \<open>The contact endpoint\<close>

type_synonym 's create_document = "string \<Rightarrow> model \<Rightarrow> 's \<Rightarrow> (exn + string) \<times> 's"

record contact_response =
  status :: string
  id_field :: "string option"
  detail :: string

definition contact_body :: "ContactMessage \<Rightarrow> string" where
  "contact_body payload =
     ''Name: '' @ name payload @ [CHR 0x0A] @
     ''Email: '' @ email payload @ [CHR 0x0A] @
     ''Phone: '' @ (case phone payload of None \<Rightarrow> ''-'' | Some p \<Rightarrow> if p = [] then ''-'' else p)
        @ [CHR 0x0A, CHR 0x0A] @
     ''Message:'' @ [CHR 0x0A] @ message payload @ [CHR 0x0A]"

definition submit_contact ::
  "environ \<Rightarrow> header_check \<Rightarrow> 's smtp \<Rightarrow> 's create_document \<Rightarrow> ContactMessage \<Rightarrow> 's
     \<Rightarrow> (exn + contact_response) \<times> 's" where
  "submit_contact getenv set_headers smtp create_document payload s =
     (let (saved_id, s1) =
            (case create_document ''contactmessage'' (Contact payload) s of
               (Inr i, s') \<Rightarrow> (Some i, s')
             | (Inl e, s') \<Rightarrow> (None, s'));
          subject = ''New portfolio inquiry'';
          body = contact_body payload
      in case send_email_via_smtp getenv set_headers smtp subject body (email payload) s1 of
           (Inl e, s2) \<Rightarrow> (Inl e, s2)
         | (Inr (ok, info), s2) \<Rightarrow>
             (Inr \<lparr>status = (if ok then ''emailed'' else ''stored''),
                   id_field = saved_id,
                   detail = (if ok then ''Message emailed successfully''
                             else if truthy saved_id
                                  then ''Email not sent: '' @ info @ ''. Saved to database.''
                                  else ''Email not sent and could not save.'')\<rparr>, s2))"

subsection \<open>Documents and the store driver\<close>

text \<open>
  A stored document is a Python dict: a list of keys with their values, in insertion
  order, each key once. The values are those a PortfolioItem document holds.
\<close>

datatype "value" = ObjectId string | Str string | Integer int | Null

type_synonym document = "(string \<times> value) list"

definition dict_pop :: "document \<Rightarrow> string \<Rightarrow> exn + value \<times> document" where
  "dict_pop d k = (case map_of d k of
                     None \<Rightarrow> Inl (KeyError k)
                   | Some v \<Rightarrow> Inr (v, filter (\<lambda>kv. fst kv \<noteq> k) d))"

definition dict_set :: "document \<Rightarrow> string \<Rightarrow> value \<Rightarrow> document" where
  "dict_set d k v = (if k \<in> set (map fst d)
                     then map (\<lambda>kv. if fst kv = k then (k, v) else kv) d
                     else d @ [(k, v)])"

fun digits_of :: "nat \<Rightarrow> string" where
  "digits_of n = (if n < 10 then [''0123456789'' ! n]
                  else digits_of (n div 10) @ [''0123456789'' ! (n mod 10)])"

declare digits_of.simps [simp del]

definition str_of_int :: "int \<Rightarrow> string" where
  "str_of_int i = (if i < 0 then CHR ''-'' # digits_of (nat (- i)) else digits_of (nat i))"

fun py_str :: "value \<Rightarrow> string" where
  "py_str (ObjectId h) = h"
| "py_str (Str t) = t"
| "py_str (Integer i) = str_of_int i"
| "py_str Null = ''None''"

text \<open>
  The driver calls of \<^verbatim>\<open>list_portfolio\<close>: \<^verbatim>\<open>coll.count_documents(filter)\<close> and the cursor
  \<^verbatim>\<open>coll.find(filter).sort(key, direction).skip(n).limit(m)\<close> read to its end, each on a
  named collection. Either may raise.
\<close>

record 's database =
  count_documents :: "string \<Rightarrow> document \<Rightarrow> 's \<Rightarrow> (exn + int) \<times> 's"
  find_sort_skip_limit ::
    "string \<Rightarrow> document \<Rightarrow> string \<times> int \<Rightarrow> int \<Rightarrow> int \<Rightarrow> 's \<Rightarrow> (exn + document list) \<times> 's"

subsection \<open>The portfolio endpoints\<close>

record list_response =
  items :: "document list"
  total :: int
  page :: int
  limit :: int

text \<open>The loop of lines 76 to 79: each document's \<^verbatim>\<open>_id\<close> is popped and stored again,
  as a string, under \<^verbatim>\<open>id\<close>; \<open>loop_body\<close> is line 78.\<close>

definition loop_body :: "document \<Rightarrow> exn + document" where
  "loop_body doc = (case dict_pop doc ''_id'' of
                      Inl e \<Rightarrow> Inl e
                    | Inr (v, doc') \<Rightarrow> Inr (dict_set doc' ''id'' (Str (py_str v))))"

fun collect_items :: "document list \<Rightarrow> document list \<Rightarrow> exn + document list" where
  "collect_items [] acc = Inr acc"
| "collect_items (doc # cursor) acc =
     (case loop_body doc of
        Inl e \<Rightarrow> Inl e
      | Inr doc' \<Rightarrow> collect_items cursor (acc @ [doc']))"

text \<open>Lines 69 to 71: the filter is empty unless a category that is not the empty
  string was given.\<close>

definition filter_dict :: "string option \<Rightarrow> document" where
  "filter_dict category_q = (case category_q of
                               None \<Rightarrow> []
                             | Some c \<Rightarrow> if c = [] then [] else [(''category'', Str c)])"

definition list_portfolio ::
  "'s database option \<Rightarrow> string option \<Rightarrow> int \<Rightarrow> int \<Rightarrow> 's \<Rightarrow> (exn + list_response) \<times> 's" where
  "list_portfolio db category_q page_q limit_q s =
     (case db of
        None \<Rightarrow> (Inl (HTTPException 500 ''Database not configured''), s)
      | Some d \<Rightarrow>
          (let flt = filter_dict category_q;
               skip = max 0 ((page_q - 1) * limit_q)
           in case count_documents d ''portfolioitem'' flt s of
                (Inl e, s1) \<Rightarrow> (Inl e, s1)
              | (Inr n, s1) \<Rightarrow>
                  (case find_sort_skip_limit d ''portfolioitem'' flt (''created_at'', - 1)
                          skip limit_q s1 of
                     (Inl e, s2) \<Rightarrow> (Inl e, s2)
                   | (Inr cursor, s2) \<Rightarrow>
                       (case collect_items cursor [] of
                          Inl e \<Rightarrow> (Inl e, s2)
                        | Inr its \<Rightarrow>
                            (Inr \<lparr>items = its, total = n, page = page_q, limit = limit_q\<rparr>, s2)))))"

definition portfolio_categories :: "string list" where
  "portfolio_categories =
     [''Interiors'', ''Exteriors'', ''Drone / Aerial'', ''Architectural Details'',
      ''Commercial Spaces'', ''Short-Let & Airbnb'']"

definition add_portfolio_item ::
  "'s create_document \<Rightarrow> 's database option \<Rightarrow> PortfolioItem \<Rightarrow> 's \<Rightarrow> (exn + string) \<times> 's" where
  "add_portfolio_item create_document db item s =
     (case db of
        None \<Rightarrow> (Inl (HTTPException 500 ''Database not configured''), s)
      | Some d \<Rightarrow> create_document ''portfolioitem'' (Portfolio item) s)"

record bulk_response =
  inserted :: int
  ids :: "string list"

fun bulk_loop ::
  "'s create_document \<Rightarrow> PortfolioItem list \<Rightarrow> string list \<Rightarrow> 's \<Rightarrow> (exn + string list) \<times> 's" where
  "bulk_loop create_document [] acc s = (Inr acc, s)"
| "bulk_loop create_document (it # rest) acc s =
     (case create_document ''portfolioitem'' (Portfolio it) s of
        (Inl e, s') \<Rightarrow> (Inl e, s')
      | (Inr i, s') \<Rightarrow> bulk_loop create_document rest (acc @ [i]) s')"

definition add_portfolio_bulk ::
  "'s create_document \<Rightarrow> 's database option \<Rightarrow> PortfolioItem list \<Rightarrow> 's
     \<Rightarrow> (exn + bulk_response) \<times> 's" where
  "add_portfolio_bulk create_document db its s =
     (case db of
        None \<Rightarrow> (Inl (HTTPException 500 ''Database not configured''), s)
      | Some d \<Rightarrow>
          (case bulk_loop create_document its [] s of
             (Inl e, s') \<Rightarrow> (Inl e, s')
           | (Inr acc, s') \<Rightarrow> (Inr \<lparr>inserted = int (length acc), ids = acc\<rparr>, s')))"

subsection \<open>Validation of request bodies (schemas.py)\<close>

text \<open>
  The constructors of the two schema classes, applied to the fields of a body; a field
  left out is \<open>None\<close>, and a field that is given already has the type of its
  annotation. Lengths count the characters of the string. The syntax checks of \<^verbatim>\<open>EmailStr\<close> and \<^verbatim>\<open>HttpUrl\<close> belong to
  the validation library and are parameters: each returns the accepted value in its
  normal form, or \<open>None\<close>. The result is the validated object, or the names of the
  fields that were refused.
\<close>

definition ContactMessage_errors ::
  "(string \<Rightarrow> string option) \<Rightarrow> string option \<Rightarrow> string option \<Rightarrow> string option
     \<Rightarrow> string option \<Rightarrow> string list" where
  "ContactMessage_errors email_str nm em ph ms =
     (case nm of
        None \<Rightarrow> [''name'']
      | Some n \<Rightarrow> if 2 \<le> length n \<and> length n \<le> 120 then [] else [''name'']) @
     (case em of
        None \<Rightarrow> [''email'']
      | Some e \<Rightarrow> (case email_str e of None \<Rightarrow> [''email''] | Some e' \<Rightarrow> [])) @
     (case ph of
        None \<Rightarrow> []
      | Some p \<Rightarrow> if length p \<le> 50 then [] else [''phone'']) @
     (case ms of
        None \<Rightarrow> [''message'']
      | Some m \<Rightarrow> if 5 \<le> length m \<and> length m \<le> 5000 then [] else [''message''])"

definition ContactMessage_validate ::
  "(string \<Rightarrow> string option) \<Rightarrow> string option \<Rightarrow> string option \<Rightarrow> string option
     \<Rightarrow> string option \<Rightarrow> exn + ContactMessage" where
  "ContactMessage_validate email_str nm em ph ms =
     (case (ContactMessage_errors email_str nm em ph ms, nm, Option.bind em email_str, ms) of
        ([], Some n, Some e', Some m) \<Rightarrow> Inr \<lparr>name = n, email = e', phone = ph, message = m\<rparr>
      | (errs, _, _, _) \<Rightarrow> Inl (ValidationError errs))"

definition PortfolioItem_category_values :: "string list" where
  "PortfolioItem_category_values =
     [''Interiors'', ''Exteriors'', ''Drone / Aerial'', ''Architectural Details'',
      ''Commercial Spaces'', ''Short-Let & Airbnb'']"

definition PortfolioItem_errors ::
  "(string \<Rightarrow> string option) \<Rightarrow> string option \<Rightarrow> string option \<Rightarrow> int option \<Rightarrow> int option
     \<Rightarrow> string list" where
  "PortfolioItem_errors http_url cat sr w h =
     (case cat of
        None \<Rightarrow> [''category'']
      | Some c \<Rightarrow> if c \<in> set PortfolioItem_category_values then [] else [''category'']) @
     (case sr of
        None \<Rightarrow> [''src'']
      | Some u \<Rightarrow> (case http_url u of None \<Rightarrow> [''src''] | Some u' \<Rightarrow> [])) @
     (case w of None \<Rightarrow> [] | Some n \<Rightarrow> if 1 \<le> n then [] else [''width'']) @
     (case h of None \<Rightarrow> [] | Some n \<Rightarrow> if 1 \<le> n then [] else [''height''])"

definition PortfolioItem_validate ::
  "(string \<Rightarrow> string option) \<Rightarrow> string option \<Rightarrow> string option \<Rightarrow> string option
     \<Rightarrow> string option \<Rightarrow> int option \<Rightarrow> int option \<Rightarrow> exn + PortfolioItem" where
  "PortfolioItem_validate http_url ti cat sr cap w h =
     (case (PortfolioItem_errors http_url cat sr w h, cat, Option.bind sr http_url) of
        ([], Some c, Some u') \<Rightarrow>
          Inr \<lparr>title = ti, category = c, src = u', caption = cap, width = w, height = h\<rparr>
      | (errs, _, _) \<Rightarrow> Inl (ValidationError errs))"

subsection \<open>A store held in memory\<close>

text \<open>
  A reference driver: the collections are one list of documents in insertion order, and
  the cursor behaves as the driver documents it. The filter matches a document that has
  equal values under the filter's keys; the sort is stable; \<^verbatim>\<open>skip\<close> refuses a negative
  number; a \<^verbatim>\<open>limit\<close> of 0 is no limit, and a negative limit stands for its absolute
  value.
\<close>

record mem_store =
  stored :: "(string \<times> document) list"
  counter :: nat

definition doc_matches :: "document \<Rightarrow> document \<Rightarrow> bool" where
  "doc_matches flt doc = list_all (\<lambda>kv. map_of doc (fst kv) = Some (snd kv)) flt"

definition mem_matching :: "string \<Rightarrow> document \<Rightarrow> 'a mem_store_scheme \<Rightarrow> document list" where
  "mem_matching coll flt s =
     filter (doc_matches flt) (map snd (filter (\<lambda>cd. fst cd = coll) (stored s)))"

fun str_le :: "string \<Rightarrow> string \<Rightarrow> bool" where
  "str_le [] ys = True"
| "str_le (x # xs) [] = False"
| "str_le (x # xs) (y # ys) =
     ((of_char x :: nat) < of_char y \<or> (x = y \<and> str_le xs ys))"

fun value_rank :: "value option \<Rightarrow> nat" where
  "value_rank None = 0"
| "value_rank (Some Null) = 0"
| "value_rank (Some (Integer i)) = 1"
| "value_rank (Some (Str t)) = 2"
| "value_rank (Some (ObjectId h)) = 3"

fun value_le :: "value option \<Rightarrow> value option \<Rightarrow> bool" where
  "value_le (Some (Integer i)) (Some (Integer j)) = (i \<le> j)"
| "value_le (Some (Str x)) (Some (Str y)) = str_le x y"
| "value_le (Some (ObjectId x)) (Some (ObjectId y)) = str_le x y"
| "value_le a b = (value_rank a \<le> value_rank b)"

fun cursor_insert :: "string \<times> int \<Rightarrow> document \<Rightarrow> document list \<Rightarrow> document list" where
  "cursor_insert srt d [] = [d]"
| "cursor_insert srt d (x # xs) =
     (if (if snd srt < 0 then value_le (map_of d (fst srt)) (map_of x (fst srt))
          else value_le (map_of x (fst srt)) (map_of d (fst srt)))
      then x # cursor_insert srt d xs
      else d # x # xs)"

definition cursor_sort :: "string \<times> int \<Rightarrow> document list \<Rightarrow> document list" where
  "cursor_sort srt docs = foldl (\<lambda>acc d. cursor_insert srt d acc) [] docs"

definition cursor_limit :: "int \<Rightarrow> document list \<Rightarrow> document list" where
  "cursor_limit l docs = (if l = 0 then docs else take (nat \<bar>l\<bar>) docs)"

definition mem_db :: "'a mem_store_scheme database" where
  "mem_db =
     \<lparr>count_documents = (\<lambda>coll flt s. (Inr (int (length (mem_matching coll flt s))), s)),
      find_sort_skip_limit = (\<lambda>coll flt srt sk l s.
         if sk < 0 then (Inl (ValueError ''skip''), s)
         else (Inr (cursor_limit l (drop (nat sk) (cursor_sort srt (mem_matching coll flt s)))),
               s))\<rparr>"

fun opt_str :: "string option \<Rightarrow> value" where
  "opt_str None = Null"
| "opt_str (Some t) = Str t"

fun opt_int :: "int option \<Rightarrow> value" where
  "opt_int None = Null"
| "opt_int (Some i) = Integer i"

fun model_dump :: "model \<Rightarrow> document" where
  "model_dump (Contact c) =
     [(''name'', Str (name c)), (''email'', Str (email c)), (''phone'', opt_str (phone c)),
      (''message'', Str (message c))]"
| "model_dump (Portfolio p) =
     [(''title'', opt_str (title p)), (''category'', Str (category p)), (''src'', Str (src p)),
      (''caption'', opt_str (caption p)), (''width'', opt_int (width p)),
      (''height'', opt_int (height p))]"

text \<open>
  Modelled from the spec: \<^verbatim>\<open>database.create_document\<close> is imported by \<^verbatim>\<open>main.py\<close> and is
  not among the sources. The spec has it insert one document into the named collection
  and return an opaque id the store assigns; here the id is the number of the insert,
  which also serves as the creation time. The handlers take the operation as a
  parameter; this instance is one store to run them on.
\<close>

definition mem_create_document :: "'a mem_store_scheme create_document" where
  "mem_create_document coll m s =
     (Inr (digits_of (counter s)),
      s\<lparr>stored := stored s @
           [(coll, (''_id'', ObjectId (digits_of (counter s))) # model_dump m @
                   [(''created_at'', Integer (int (counter s)))])],
        counter := Suc (counter s)\<rparr>)"

text \<open>The store after the documents of a list were inserted one after the other, each
  call starting from the state the call before it left.\<close>

fun store_after :: "'s create_document \<Rightarrow> PortfolioItem list \<Rightarrow> 's \<Rightarrow> 's" where
  "store_after create_document [] s = s"
| "store_after create_document (it # rest) s =
     store_after create_document rest (snd (create_document ''portfolioitem'' (Portfolio it) s))"

subsection \<open>Concrete worlds to run the handlers in\<close>

text \<open>The store in memory together with a record of the sessions the mail relay was
  asked to open.\<close>

record world = mem_store +
  attempts :: "smtp_session list"

definition world0 :: world where
  "world0 = \<lparr>stored = [], counter = 0, attempts = []\<rparr>"

definition relay_accepts :: "world smtp" where
  "relay_accepts sess w = (Sent, w\<lparr>attempts := attempts w @ [sess]\<rparr>)"

definition relay_refuses :: "world smtp" where
  "relay_refuses sess w = (Raised ''Connection refused'', w\<lparr>attempts := attempts w @ [sess]\<rparr>)"

definition headers_accepted :: header_check where
  "headers_accepted m = None"

definition create_fails :: "world create_document" where
  "create_fails coll m w = (Inl (StoreError ''store unreachable''), w)"

definition create_empty_id :: "world create_document" where
  "create_empty_id coll m w = (Inr [], w\<lparr>counter := Suc (counter w)\<rparr>)"

definition env_unset :: environ where
  "env_unset = map_of []"

definition env_relay :: environ where
  "env_relay = map_of [(''SMTP_HOST'', ''mail.example.org''),
                       (''CONTACT_TO_EMAIL'', ''owner@example.org'')]"

definition env_bad_port :: environ where
  "env_bad_port = map_of [(''SMTP_PORT'', ''abc'')]"

definition env_relay_bad_port :: environ where
  "env_relay_bad_port = map_of [(''SMTP_HOST'', ''mail.example.org''),
                                (''SMTP_PORT'', ''abc''),
                                (''CONTACT_TO_EMAIL'', ''owner@example.org'')]"

definition ann :: ContactMessage where
  "ann = \<lparr>name = ''Ann'', email = ''ann@example.org'', phone = None, message = ''abcde''\<rparr>"

definition photo :: "string \<Rightarrow> string \<Rightarrow> PortfolioItem" where
  "photo cat url = \<lparr>title = None, category = cat, src = url, caption = None,
                     width = None, height = None\<rparr>"

definition three_photos :: "PortfolioItem list" where
  "three_photos = [photo ''Interiors'' ''https://example.org/1.jpg'',
                   photo ''Exteriors'' ''https://example.org/2.jpg'',
                   photo ''Interiors'' ''https://example.org/3.jpg'']"

definition world3 :: world where
  "world3 = store_after mem_create_document three_photos world0"


text \<open>Stand-ins for the library's syntax checks, to run the validation on.\<close>

definition has_at_sign :: "string \<Rightarrow> string option" where
  "has_at_sign e = (if CHR ''@'' \<in> set e then Some e else None)"

definition has_https :: "string \<Rightarrow> string option" where
  "has_https u = (if take 8 u = ''https://'' then Some u else None)"

section \<open>Properties\<close>

subsection \<open>Evaluating the configuration\<close>

lemma py_int_587: "py_int ''587'' = Some 587"
  by (simp add: py_int_def py_strip_def py_isspace_def digit_value_def int_max_str_digits_def)

lemma py_int_abc: "py_int ''abc'' = None"
  by (simp add: py_int_def py_strip_def py_isspace_def digit_value_def int_max_str_digits_def)

lemma send_env_unset:
  "send_email_via_smtp env_unset set_headers smtp subject body from_email s =
     (Inr (False, ''SMTP not configured''), s)"
  by (simp add: send_email_via_smtp_def env_unset_def py_int_587 py_or_def)

lemma send_env_bad_port:
  "send_email_via_smtp env_bad_port set_headers smtp subject body from_email s =
     (Inl (ValueError ''abc''), s)"
  by (simp add: send_email_via_smtp_def env_bad_port_def py_int_abc)

lemma send_env_relay:
  "send_email_via_smtp env_relay headers_accepted smtp subject body from_email s =
     (case smtp \<lparr>host = ''mail.example.org'', port = 587, timeout = 15, login = None,
                 msg = \<lparr>Subject = subject, From = from_email, To = ''owner@example.org'',
                         content = body\<rparr>\<rparr> s of
        (Sent, s') \<Rightarrow> (Inr (True, ''sent''), s')
      | (Raised e, s') \<Rightarrow> (Inr (False, e), s'))"
  by (simp add: send_email_via_smtp_def env_relay_def py_int_587 py_or_def headers_accepted_def)

lemma send_env_relay_bad_port:
  "send_email_via_smtp env_relay_bad_port set_headers smtp subject body from_email s =
     (Inl (ValueError ''abc''), s)"
  by (simp add: send_email_via_smtp_def env_relay_bad_port_def py_int_abc)

text \<open>An exception of the email operation leaves the handler as it is: the only
  \<^verbatim>\<open>try\<close> of \<^verbatim>\<open>submit_contact\<close> is around the store call.\<close>

lemma submit_contact_raises:
  assumes "send_email_via_smtp getenv set_headers smtp ''New portfolio inquiry''
             (contact_body payload) (email payload)
             (snd (create_document ''contactmessage'' (Contact payload) s)) = (Inl e, s2)"
  shows "submit_contact getenv set_headers smtp create_document payload s = (Inl e, s2)"
  using assms by (auto simp: submit_contact_def split: prod.splits sum.splits)

subsection \<open>The contact workflow\<close>

text \<open>
  C1, as the source has it. Whenever the email operation returns for a submission
  (rather than raising), the handler responds, and the status of the response is
  \<^verbatim>\<open>emailed\<close> if the operation reported success and \<^verbatim>\<open>stored\<close> otherwise. The
  store call is arbitrary: it may have returned an id or raised.
\<close>

theorem submit_contact_status:
  assumes "send_email_via_smtp getenv set_headers smtp ''New portfolio inquiry''
             (contact_body payload) (email payload)
             (snd (create_document ''contactmessage'' (Contact payload) s)) = (Inr (ok, info), s2)"
  shows "\<exists>r. submit_contact getenv set_headers smtp create_document payload s = (Inr r, s2)
             \<and> status r = (if ok then ''emailed'' else ''stored'')"
  using assms by (auto simp: submit_contact_def split: prod.splits sum.splits)

text \<open>The relay accepts the message while the store is unreachable: the status is
  \<^verbatim>\<open>emailed\<close>.\<close>

theorem submit_contact_status_witness:
  "send_email_via_smtp env_relay headers_accepted relay_accepts ''New portfolio inquiry''
     (contact_body ann) (email ann)
     (snd (create_fails ''contactmessage'' (Contact ann) world0))
   = (Inr (True, ''sent''),
      world0\<lparr>attempts :=
        [\<lparr>host = ''mail.example.org'', port = 587, timeout = 15, login = None,
          msg = \<lparr>Subject = ''New portfolio inquiry'', From = email ann,
                  To = ''owner@example.org'', content = contact_body ann\<rparr>\<rparr>]\<rparr>)
   \<and> (\<exists>r. submit_contact env_relay headers_accepted relay_accepts create_fails ann world0
            = (Inr r,
               world0\<lparr>attempts :=
                 [\<lparr>host = ''mail.example.org'', port = 587, timeout = 15, login = None,
                   msg = \<lparr>Subject = ''New portfolio inquiry'', From = email ann,
                           To = ''owner@example.org'', content = contact_body ann\<rparr>\<rparr>]\<rparr>)
          \<and> status r = ''emailed'')"
proof -
  have h: "send_email_via_smtp env_relay headers_accepted relay_accepts ''New portfolio inquiry''
     (contact_body ann) (email ann)
     (snd (create_fails ''contactmessage'' (Contact ann) world0))
   = (Inr (True, ''sent''),
      world0\<lparr>attempts :=
        [\<lparr>host = ''mail.example.org'', port = 587, timeout = 15, login = None,
          msg = \<lparr>Subject = ''New portfolio inquiry'', From = email ann,
                  To = ''owner@example.org'', content = contact_body ann\<rparr>\<rparr>]\<rparr>)"
    by (simp add: send_env_relay relay_accepts_def create_fails_def world0_def)
  from submit_contact_status [where create_document = create_fails and s = world0, OF h] h
  show ?thesis by simp
qed

text \<open>
  C1 as stated fails: with \<^verbatim>\<open>SMTP_PORT=abc\<close> the submission is saved under the id
  \<^verbatim>\<open>0\<close>, then \<^verbatim>\<open>int("abc")\<close> (line 115) raises ValueError out of the handler: there
  is no response, hence no status \<^verbatim>\<open>stored\<close>.
\<close>

theorem submit_contact_no_status_on_port_error:
  "fst (mem_create_document ''contactmessage'' (Contact ann) world0) = Inr ''0''
   \<and> fst (submit_contact env_bad_port headers_accepted relay_accepts mem_create_document
            ann world0) = Inl (ValueError ''abc'')"
  by (simp add: submit_contact_def send_env_bad_port mem_create_document_def world0_def
      digits_of.simps split: prod.splits)

text \<open>
  C2, as the source has it. Whenever the email operation returns for a submission
  (rather than raising), the handler responds and the detail of the response
  is one of three messages. The saved id of the response is the id the store call
  returned, or null if the call raised. The detail is the success message if the
  operation reported success; if it reported a failure, the detail is the message that
  embeds the failure string and says the submission was saved when there is a saved id
  (one that is not null and not empty, which is what the source's test of the id
  accepts), and the message that it could not be saved when there is none.
\<close>

theorem submit_contact_detail:
  assumes "send_email_via_smtp getenv set_headers smtp ''New portfolio inquiry''
             (contact_body payload) (email payload)
             (snd (create_document ''contactmessage'' (Contact payload) s)) = (Inr (ok, info), s2)"
  shows "\<exists>r. submit_contact getenv set_headers smtp create_document payload s = (Inr r, s2)
             \<and> id_field r = (case fst (create_document ''contactmessage'' (Contact payload) s) of
                                Inl e \<Rightarrow> None | Inr i \<Rightarrow> Some i)
             \<and> detail r =
                 (if ok then ''Message emailed successfully''
                  else if \<exists>i. id_field r = Some i \<and> i \<noteq> []
                       then ''Email not sent: '' @ info @ ''. Saved to database.''
                       else ''Email not sent and could not save.'')"
  using assms by (auto simp: submit_contact_def split: prod.splits sum.splits)

text \<open>No relay is configured and the store saves the submission under the id \<^verbatim>\<open>0\<close>.\<close>

theorem submit_contact_detail_witness:
  "send_email_via_smtp env_unset headers_accepted relay_accepts ''New portfolio inquiry''
     (contact_body ann) (email ann)
     (snd (mem_create_document ''contactmessage'' (Contact ann) world0))
   = (Inr (False, ''SMTP not configured''),
      snd (mem_create_document ''contactmessage'' (Contact ann) world0))
   \<and> (\<exists>r. submit_contact env_unset headers_accepted relay_accepts mem_create_document ann world0
            = (Inr r, snd (mem_create_document ''contactmessage'' (Contact ann) world0))
          \<and> id_field r = Some ''0''
          \<and> detail r = ''Email not sent: SMTP not configured. Saved to database.'')"
proof -
  have h: "send_email_via_smtp env_unset headers_accepted relay_accepts ''New portfolio inquiry''
     (contact_body ann) (email ann)
     (snd (mem_create_document ''contactmessage'' (Contact ann) world0))
   = (Inr (False, ''SMTP not configured''),
      snd (mem_create_document ''contactmessage'' (Contact ann) world0))"
    by (simp add: send_env_unset)
  have i: "fst (mem_create_document ''contactmessage'' (Contact ann) world0) = Inr ''0''"
    by (simp add: mem_create_document_def world0_def digits_of.simps)
  from submit_contact_detail [where create_document = mem_create_document and s = world0, OF h] h i
  show ?thesis by auto
qed

text \<open>
  C2 as stated fails: with host and recipient configured and \<^verbatim>\<open>SMTP_PORT=abc\<close>,
  \<^verbatim>\<open>int("abc")\<close> (line 115) raises ValueError out of the handler: there is no response,
  hence none of the three details.
\<close>

theorem submit_contact_no_detail_on_port_error:
  "env_relay_bad_port ''SMTP_HOST'' = Some ''mail.example.org''
   \<and> env_relay_bad_port ''CONTACT_TO_EMAIL'' = Some ''owner@example.org''
   \<and> fst (submit_contact env_relay_bad_port headers_accepted relay_accepts mem_create_document
            ann world0) = Inl (ValueError ''abc'')"
proof -
  have "fst (submit_contact env_relay_bad_port headers_accepted relay_accepts mem_create_document
            ann world0) = Inl (ValueError ''abc'')"
    by (simp add: submit_contact_def send_env_relay_bad_port split: prod.splits)
  then show ?thesis by (simp add: env_relay_bad_port_def)
qed

text \<open>
  C3, as the source has it. When the store call raises, its exception is not surfaced:
  the workflow goes on from the state the failed call left with a null saved id, and
  whenever the email operation then returns, the handler responds with id null. (What
  the email operation raises itself is not caught by the handler.)
\<close>

theorem submit_contact_swallows_store_failure:
  assumes "create_document ''contactmessage'' (Contact payload) s = (Inl e, s1)"
    and "send_email_via_smtp getenv set_headers smtp ''New portfolio inquiry''
             (contact_body payload) (email payload) s1 = (Inr (ok, info), s2)"
  shows "\<exists>r. submit_contact getenv set_headers smtp create_document payload s = (Inr r, s2)
             \<and> id_field r = None"
  using assms by (auto simp: submit_contact_def split: prod.splits sum.splits)

text \<open>The store is unreachable and the relay refuses the connection.\<close>

theorem submit_contact_swallows_store_failure_witness:
  "create_fails ''contactmessage'' (Contact ann) world0
     = (Inl (StoreError ''store unreachable''), world0)
   \<and> send_email_via_smtp env_relay headers_accepted relay_refuses ''New portfolio inquiry''
        (contact_body ann) (email ann) world0
     = (Inr (False, ''Connection refused''),
        world0\<lparr>attempts :=
          [\<lparr>host = ''mail.example.org'', port = 587, timeout = 15, login = None,
            msg = \<lparr>Subject = ''New portfolio inquiry'', From = email ann,
                    To = ''owner@example.org'', content = contact_body ann\<rparr>\<rparr>]\<rparr>)
   \<and> (\<exists>r. submit_contact env_relay headers_accepted relay_refuses create_fails ann world0
            = (Inr r,
               world0\<lparr>attempts :=
                 [\<lparr>host = ''mail.example.org'', port = 587, timeout = 15, login = None,
                   msg = \<lparr>Subject = ''New portfolio inquiry'', From = email ann,
                           To = ''owner@example.org'', content = contact_body ann\<rparr>\<rparr>]\<rparr>)
          \<and> id_field r = None)"
proof -
  have c: "create_fails ''contactmessage'' (Contact ann) world0
             = (Inl (StoreError ''store unreachable''), world0)"
    by (simp add: create_fails_def)
  have h: "send_email_via_smtp env_relay headers_accepted relay_refuses ''New portfolio inquiry''
        (contact_body ann) (email ann) world0
     = (Inr (False, ''Connection refused''),
        world0\<lparr>attempts :=
          [\<lparr>host = ''mail.example.org'', port = 587, timeout = 15, login = None,
            msg = \<lparr>Subject = ''New portfolio inquiry'', From = email ann,
                    To = ''owner@example.org'', content = contact_body ann\<rparr>\<rparr>]\<rparr>)"
    by (simp add: send_env_relay relay_refuses_def world0_def)
  from submit_contact_swallows_store_failure
         [where create_document = create_fails and payload = ann and s = world0, OF c h] c h
  show ?thesis by simp
qed

text \<open>
  C3 as stated fails: with \<^verbatim>\<open>SMTP_PORT=abc\<close> the store call raises, is swallowed, and
  the handler then surfaces the ValueError of \<^verbatim>\<open>int("abc")\<close> (line 115) instead of
  responding.
\<close>

theorem submit_contact_surfaces_port_error:
  "create_fails ''contactmessage'' (Contact ann) world0
     = (Inl (StoreError ''store unreachable''), world0)
   \<and> submit_contact env_bad_port headers_accepted relay_accepts create_fails ann world0
     = (Inl (ValueError ''abc''), world0)"
  by (simp add: submit_contact_def create_fails_def send_env_bad_port)

text \<open>
  C10. When the store call succeeds but returns the empty string as id and the email
  operation reports a failure, the response says that the submission could not be
  saved, while its id is the empty id the store returned.
\<close>

theorem submit_contact_falsy_id:
  assumes "create_document ''contactmessage'' (Contact payload) s = (Inr [], s1)"
    and "send_email_via_smtp getenv set_headers smtp ''New portfolio inquiry''
             (contact_body payload) (email payload) s1 = (Inr (False, info), s2)"
  shows "submit_contact getenv set_headers smtp create_document payload s =
           (Inr \<lparr>status = ''stored'', id_field = Some [],
                 detail = ''Email not sent and could not save.''\<rparr>, s2)"
  using assms by (auto simp: submit_contact_def split: prod.splits sum.splits)

theorem submit_contact_falsy_id_witness:
  "create_empty_id ''contactmessage'' (Contact ann) world0
     = (Inr [], world0\<lparr>counter := 1\<rparr>)
   \<and> send_email_via_smtp env_unset headers_accepted relay_accepts ''New portfolio inquiry''
        (contact_body ann) (email ann) (world0\<lparr>counter := 1\<rparr>)
     = (Inr (False, ''SMTP not configured''), world0\<lparr>counter := 1\<rparr>)
   \<and> submit_contact env_unset headers_accepted relay_accepts create_empty_id ann world0
     = (Inr \<lparr>status = ''stored'', id_field = Some [],
             detail = ''Email not sent and could not save.''\<rparr>, world0\<lparr>counter := 1\<rparr>)"
proof -
  have c: "create_empty_id ''contactmessage'' (Contact ann) world0
             = (Inr [], world0\<lparr>counter := 1\<rparr>)"
    by (simp add: create_empty_id_def world0_def)
  have h: "send_email_via_smtp env_unset headers_accepted relay_accepts ''New portfolio inquiry''
        (contact_body ann) (email ann) (world0\<lparr>counter := 1\<rparr>)
     = (Inr (False, ''SMTP not configured''), world0\<lparr>counter := 1\<rparr>)"
    by (simp add: send_env_unset)
  from submit_contact_falsy_id
         [where create_document = create_empty_id and payload = ann and s = world0, OF c h] c h
  show ?thesis by simp
qed

subsection \<open>The email operation\<close>

text \<open>
  C4, as the source has it. When \<^verbatim>\<open>SMTP_PORT\<close> is unset or reads as an integer, and the
  host or the recipient (\<^verbatim>\<open>CONTACT_TO_EMAIL\<close>, else \<^verbatim>\<open>TO_EMAIL\<close>) is unset or empty,
  the operation returns failure with the message \<^verbatim>\<open>SMTP not configured\<close> and leaves
  the world as it was, whatever the relay would have done: no session is opened.
\<close>

theorem send_email_not_configured:
  assumes "py_int (case getenv ''SMTP_PORT'' of None \<Rightarrow> ''587'' | Some v \<Rightarrow> v) = Some p"
    and "\<not> truthy (getenv ''SMTP_HOST'')
         \<or> \<not> truthy (py_or (getenv ''CONTACT_TO_EMAIL'') (getenv ''TO_EMAIL''))"
  shows "send_email_via_smtp getenv set_headers smtp subject body from_email s =
           (Inr (False, ''SMTP not configured''), s)"
  using assms
  by (cases "getenv ''SMTP_HOST''";
      cases "py_or (getenv ''CONTACT_TO_EMAIL'') (getenv ''TO_EMAIL'')")
     (auto simp: send_email_via_smtp_def)

theorem send_email_not_configured_witness:
  "py_int (case env_unset ''SMTP_PORT'' of None \<Rightarrow> ''587'' | Some v \<Rightarrow> v) = Some 587
   \<and> \<not> truthy (env_unset ''SMTP_HOST'')
   \<and> send_email_via_smtp env_unset headers_accepted relay_accepts ''New portfolio inquiry''
        (contact_body ann) (email ann) world0
     = (Inr (False, ''SMTP not configured''), world0)"
proof -
  have p: "py_int (case env_unset ''SMTP_PORT'' of None \<Rightarrow> ''587'' | Some v \<Rightarrow> v) = Some 587"
    by (simp add: env_unset_def py_int_587)
  have a: "\<not> truthy (env_unset ''SMTP_HOST'')
           \<or> \<not> truthy (py_or (env_unset ''CONTACT_TO_EMAIL'') (env_unset ''TO_EMAIL''))"
    by (simp add: env_unset_def)
  have n: "\<not> truthy (env_unset ''SMTP_HOST'')"
    by (simp add: env_unset_def)
  from send_email_not_configured [OF p a] p n show ?thesis by simp
qed

text \<open>
  C4 as stated fails: with \<^verbatim>\<open>SMTP_PORT=abc\<close> and no host configured the operation
  raises the ValueError of line 115 before it looks at the host.
\<close>

theorem send_email_port_error_before_host_check:
  "env_bad_port ''SMTP_HOST'' = None
   \<and> send_email_via_smtp env_bad_port headers_accepted relay_accepts ''New portfolio inquiry''
        (contact_body ann) (email ann) world0
     = (Inl (ValueError ''abc''), world0)"
proof
  show "env_bad_port ''SMTP_HOST'' = None"
    by (simp add: env_bad_port_def)
  show "send_email_via_smtp env_bad_port headers_accepted relay_accepts ''New portfolio inquiry''
        (contact_body ann) (email ann) world0
     = (Inl (ValueError ''abc''), world0)"
    by (rule send_env_bad_port)
qed

subsection \<open>Bulk creation\<close>

text \<open>The loop of \<^verbatim>\<open>add_portfolio_bulk\<close>: when each call succeeds from the state the calls
  before it left, the ids are appended in the order of the items.\<close>
lemma bulk_loop_ids:
  assumes "\<forall>i<length its. \<exists>sid. fst (cd ''portfolioitem'' (Portfolio (its ! i))
               (store_after cd (take i its) s)) = Inr sid"
  shows "\<exists>new. bulk_loop cd its acc s = (Inr (acc @ new), store_after cd its s)
           \<and> length new = length its
           \<and> (\<forall>i<length its. fst (cd ''portfolioitem'' (Portfolio (its ! i))
                  (store_after cd (take i its) s)) = Inr (new ! i))"
  using assms
proof (induction its arbitrary: acc s)
  case Nil
  then show ?case by simp
next
  case (Cons it rest)
  from Cons.prems have "\<exists>sid. fst (cd ''portfolioitem'' (Portfolio it) s) = Inr sid"
    by (metis length_greater_0_conv list.distinct(1) nth_Cons_0 store_after.simps(1) take_0)
  then obtain sid s' where first: "cd ''portfolioitem'' (Portfolio it) s = (Inr sid, s')"
    by (metis prod.collapse)
  have "\<forall>i<length rest. \<exists>sid. fst (cd ''portfolioitem'' (Portfolio (rest ! i))
               (store_after cd (take i rest) s')) = Inr sid"
  proof (intro allI impI)
    fix i assume "i < length rest"
    then have "Suc i < length (it # rest)" by simp
    with Cons.prems have "\<exists>sid. fst (cd ''portfolioitem'' (Portfolio ((it # rest) ! Suc i))
               (store_after cd (take (Suc i) (it # rest)) s)) = Inr sid" by blast
    then show "\<exists>sid. fst (cd ''portfolioitem'' (Portfolio (rest ! i))
               (store_after cd (take i rest) s')) = Inr sid"
      by (simp add: first)
  qed
  from Cons.IH [OF this, of "acc @ [sid]"]
  obtain new where new: "bulk_loop cd rest (acc @ [sid]) s' = (Inr ((acc @ [sid]) @ new), store_after cd rest s')"
    "length new = length rest"
    "\<forall>i<length rest. fst (cd ''portfolioitem'' (Portfolio (rest ! i))
                  (store_after cd (take i rest) s')) = Inr (new ! i)"
    by blast
  have "\<forall>i<length (it # rest). fst (cd ''portfolioitem'' (Portfolio ((it # rest) ! i))
                  (store_after cd (take i (it # rest)) s)) = Inr ((sid # new) ! i)"
  proof (intro allI impI)
    fix i assume "i < length (it # rest)"
    then show "fst (cd ''portfolioitem'' (Portfolio ((it # rest) ! i))
                  (store_after cd (take i (it # rest)) s)) = Inr ((sid # new) ! i)"
      using new(3) first by (cases i) auto
  qed
  with new(1,2) first show ?case
    by (intro exI [of _ "sid # new"]) simp
qed

text \<open>
  C5, as the source has it. While the database handle is available: for every list of
  items, if each insert succeeds (the insert of the item at index \<open>i\<close> being made from the
  state the store is in after the inserts of the items before it), the handler
  responds, \<open>inserted\<close> is the number of items, \<open>ids\<close> has one id per item, the id at index
  \<open>i\<close> is the id the store returned for the item at index \<open>i\<close>, and the store is left as
  the sequence of inserts leaves it.
\<close>
theorem add_portfolio_bulk_ids:
  assumes "\<forall>i<length its. \<exists>sid. fst (create_document ''portfolioitem'' (Portfolio (its ! i))
               (store_after create_document (take i its) s)) = Inr sid"
  shows "\<exists>r. add_portfolio_bulk create_document (Some d) its s
               = (Inr r, store_after create_document its s)
           \<and> inserted r = int (length its)
           \<and> length (ids r) = length its
           \<and> (\<forall>i<length its. fst (create_document ''portfolioitem'' (Portfolio (its ! i))
                  (store_after create_document (take i its) s)) = Inr (ids r ! i))"
proof -
  from bulk_loop_ids [OF assms, of "[]"]
  obtain new where "bulk_loop create_document its [] s = (Inr new, store_after create_document its s)"
    "length new = length its"
    "\<forall>i<length its. fst (create_document ''portfolioitem'' (Portfolio (its ! i))
                  (store_after create_document (take i its) s)) = Inr (new ! i)"
    by auto
  then show ?thesis by (simp add: add_portfolio_bulk_def)
qed

text \<open>Three photos posted to the empty store in memory get the ids \<^verbatim>\<open>0\<close>, \<^verbatim>\<open>1\<close>, \<^verbatim>\<open>2\<close>
  in the order they were sent.\<close>
theorem add_portfolio_bulk_ids_witness:
  "fst (mem_create_document ''portfolioitem'' (Portfolio (three_photos ! 0))
          (store_after mem_create_document (take 0 three_photos) world0)) = Inr ''0''
   \<and> fst (mem_create_document ''portfolioitem'' (Portfolio (three_photos ! 1))
          (store_after mem_create_document (take 1 three_photos) world0)) = Inr ''1''
   \<and> fst (mem_create_document ''portfolioitem'' (Portfolio (three_photos ! 2))
          (store_after mem_create_document (take 2 three_photos) world0)) = Inr ''2''
   \<and> (\<exists>r. add_portfolio_bulk mem_create_document (Some mem_db) three_photos world0
            = (Inr r, world3)
          \<and> inserted r = 3 \<and> ids r = [''0'', ''1'', ''2''])"
proof -
  have len: "length three_photos = 3" by (simp add: three_photos_def)
  have c0: "fst (mem_create_document ''portfolioitem'' (Portfolio (three_photos ! 0))
          (store_after mem_create_document (take 0 three_photos) world0)) = Inr ''0''"
    by (simp add: three_photos_def world0_def mem_create_document_def digits_of.simps)
  have c1: "fst (mem_create_document ''portfolioitem'' (Portfolio (three_photos ! 1))
          (store_after mem_create_document (take 1 three_photos) world0)) = Inr ''1''"
    by (simp add: three_photos_def world0_def mem_create_document_def digits_of.simps)
  have c2: "fst (mem_create_document ''portfolioitem'' (Portfolio (three_photos ! 2))
          (store_after mem_create_document (take 2 three_photos) world0)) = Inr ''2''"
    by (simp add: three_photos_def world0_def mem_create_document_def digits_of.simps
        numeral_2_eq_2)
  have h: "\<forall>i<length three_photos. \<exists>sid.
             fst (mem_create_document ''portfolioitem'' (Portfolio (three_photos ! i))
               (store_after mem_create_document (take i three_photos) world0)) = Inr sid"
  proof (intro allI impI)
    fix i assume "i < length three_photos"
    with len have "i = 0 \<or> i = 1 \<or> i = 2" by auto
    with c0 c1 c2 show "\<exists>sid.
             fst (mem_create_document ''portfolioitem'' (Portfolio (three_photos ! i))
               (store_after mem_create_document (take i three_photos) world0)) = Inr sid"
      by auto
  qed
  from add_portfolio_bulk_ids [OF h, of mem_db]
  obtain r where r: "add_portfolio_bulk mem_create_document (Some mem_db) three_photos world0
               = (Inr r, store_after mem_create_document three_photos world0)"
    "inserted r = int (length three_photos)" "length (ids r) = length three_photos"
    "\<forall>i<length three_photos.
        fst (mem_create_document ''portfolioitem'' (Portfolio (three_photos ! i))
               (store_after mem_create_document (take i three_photos) world0)) = Inr (ids r ! i)"
    by blast
  have i0: "ids r ! 0 = ''0''"
    using r(4) [rule_format, of 0] len c0 by simp
  have i1: "ids r ! 1 = ''1''"
    using r(4) [rule_format, of 1] len c1 by simp
  have i2: "ids r ! 2 = ''2''"
    using r(4) [rule_format, of 2] len c2 by simp
  from r(3) len obtain a b c where abc: "ids r = [a, b, c]"
    by (auto simp: length_Suc_conv numeral_3_eq_3)
  with i0 i1 i2 have "ids r = [''0'', ''1'', ''2'']"
    by simp
  with r(1,2) len c0 c1 c2 show ?thesis
    by (simp add: world3_def)
qed

text \<open>
  C5 as stated fails: the empty list posted while the database handle is \<^verbatim>\<open>None\<close> makes
  no insert, so none fails, yet lines 104 and 105 raise the HTTP error instead of
  answering with \<open>inserted = 0\<close>.
\<close>
theorem add_portfolio_bulk_without_database:
  "add_portfolio_bulk mem_create_document None [] world0
     = (Inl (HTTPException 500 ''Database not configured''), world0)"
  by (simp add: add_portfolio_bulk_def)

subsection \<open>Listing\<close>

lemma length_cursor_insert: "length (cursor_insert srt d xs) = Suc (length xs)"
  by (induction xs) auto

lemma set_cursor_insert: "set (cursor_insert srt d xs) = insert d (set xs)"
  by (induction xs) auto

lemma length_foldl_cursor_insert:
  "length (foldl (\<lambda>acc d. cursor_insert srt d acc) acc docs) = length acc + length docs"
  by (induction docs arbitrary: acc) (auto simp: length_cursor_insert)

lemma set_foldl_cursor_insert:
  "set (foldl (\<lambda>acc d. cursor_insert srt d acc) acc docs) = set acc \<union> set docs"
  by (induction docs arbitrary: acc) (auto simp: set_cursor_insert)

lemma length_cursor_sort: "length (cursor_sort srt docs) = length docs"
  by (simp add: cursor_sort_def length_foldl_cursor_insert)

lemma set_cursor_sort: "set (cursor_sort srt docs) = set docs"
  by (simp add: cursor_sort_def set_foldl_cursor_insert)

lemma set_cursor_limit: "set (cursor_limit l docs) \<subseteq> set docs"
  by (auto simp: cursor_limit_def dest: in_set_takeD)

lemma length_cursor_limit_pos:
  "1 \<le> l \<Longrightarrow> length (cursor_limit l docs) = min (nat l) (length docs)"
  by (simp add: cursor_limit_def min_def)

lemma int_min_nat_le: "1 \<le> l \<Longrightarrow> int (min (nat l) k) \<le> l"
proof -
  assume "1 \<le> l"
  have "min (nat l) k \<le> nat l" by simp
  then have "int (min (nat l) k) \<le> int (nat l)" by (simp only: of_nat_le_iff)
  with \<open>1 \<le> l\<close> show ?thesis by simp
qed

lemma loop_body_ok:
  "map_of doc ''_id'' \<noteq> None \<Longrightarrow> \<exists>doc'. loop_body doc = Inr doc'"
  by (auto simp: loop_body_def dict_pop_def)

lemma collect_items_all:
  assumes "\<forall>doc\<in>set cursor. map_of doc ''_id'' \<noteq> None"
  shows "\<exists>its. collect_items cursor acc = Inr (acc @ its) \<and> map Inr its = map loop_body cursor"
  using assms
proof (induction cursor arbitrary: acc)
  case Nil
  then show ?case by simp
next
  case (Cons doc cursor)
  then obtain doc' where d: "loop_body doc = Inr doc'"
    using loop_body_ok by (metis list.set_intros(1))
  from Cons obtain its where
    "collect_items cursor (acc @ [doc']) = Inr ((acc @ [doc']) @ its)"
    "map Inr its = map loop_body cursor"
    by (metis list.set_intros(2))
  with d show ?case
    by (intro exI [of _ "doc' # its"]) simp
qed






text \<open>On the store in memory, when the matching documents carry \<^verbatim>\<open>_id\<close>, the handler
  always responds, the items are the matching documents in the order of the sort from
  the skipped position on, and a limit of at least 1 is kept.\<close>
lemma list_portfolio_mem_db:
  assumes "\<forall>doc\<in>set (mem_matching ''portfolioitem'' (filter_dict category_q) s).
             map_of doc ''_id'' \<noteq> None"
  shows "\<exists>r. list_portfolio (Some mem_db) category_q page_q limit_q s = (Inr r, s)
           \<and> page r = page_q \<and> limit r = limit_q
           \<and> total r = int (length (mem_matching ''portfolioitem'' (filter_dict category_q) s))
           \<and> map Inr (items r) =
               map loop_body
                 (cursor_limit limit_q
                    (drop (nat (max 0 ((page_q - 1) * limit_q)))
                       (cursor_sort (''created_at'', - 1)
                          (mem_matching ''portfolioitem'' (filter_dict category_q) s))))
           \<and> (1 \<le> limit_q \<longrightarrow>
                 length (items r) =
                   min (nat limit_q)
                     (length (mem_matching ''portfolioitem'' (filter_dict category_q) s)
                        - nat (max 0 ((page_q - 1) * limit_q)))
                 \<and> int (length (items r)) \<le> limit_q)"
proof -
  let ?m = "mem_matching ''portfolioitem'' (filter_dict category_q) s"
  let ?skip = "max 0 ((page_q - 1) * limit_q)"
  let ?cur = "cursor_limit limit_q (drop (nat ?skip) (cursor_sort (''created_at'', - 1) ?m))"
  have "set ?cur \<subseteq> set ?m"
    using set_cursor_limit set_drop_subset set_cursor_sort by fast
  with assms have "\<forall>doc\<in>set ?cur. map_of doc ''_id'' \<noteq> None" by blast
  from collect_items_all [OF this, of "[]"]
  obtain its where its: "collect_items ?cur [] = Inr its" "map Inr its = map loop_body ?cur"
    by auto
  from its(2) have len: "length its = length ?cur"
    by (metis length_map)
  have run: "list_portfolio (Some mem_db) category_q page_q limit_q s
          = (Inr \<lparr>items = its, total = int (length ?m), page = page_q, limit = limit_q\<rparr>, s)"
    using its(1) by (simp add: list_portfolio_def mem_db_def Let_def)
  have "1 \<le> limit_q \<longrightarrow> length its = min (nat limit_q) (length ?m - nat ?skip)
          \<and> int (length its) \<le> limit_q"
  proof
    assume pos: "1 \<le> limit_q"
    with len have eq: "length its = min (nat limit_q) (length ?m - nat ?skip)"
      by (simp add: length_cursor_limit_pos length_cursor_sort)
    then have "length its \<le> nat limit_q" by simp
    with pos have "int (length its) \<le> limit_q" by linarith
    with eq show "length its = min (nat limit_q) (length ?m - nat ?skip)
          \<and> int (length its) \<le> limit_q" by simp
  qed
  with run its(2) show ?thesis by (simp add: int_min_nat_le)
qed

subsection \<open>The database handle\<close>

text \<open>
  C9. When the database handle is \<^verbatim>\<open>None\<close>, the listing, the single creation and the
  bulk creation fail with the HTTP error 500 and the detail
  \<^verbatim>\<open>Database not configured\<close>, and the state of the store is the one they were called
  in, whatever the store operations would do: none was performed.
\<close>

theorem database_not_configured:
  "list_portfolio None category_q page_q limit_q s
     = (Inl (HTTPException 500 ''Database not configured''), s)
   \<and> add_portfolio_item create_document None item s
     = (Inl (HTTPException 500 ''Database not configured''), s)
   \<and> add_portfolio_bulk create_document None its s
     = (Inl (HTTPException 500 ''Database not configured''), s)"
  by (simp add: list_portfolio_def add_portfolio_item_def add_portfolio_bulk_def)

text \<open>With the store in memory, whose every insert would count up: the counter stays.\<close>

theorem database_not_configured_witness:
  "list_portfolio None (Some ''Interiors'') 1 18 world3
     = (Inl (HTTPException 500 ''Database not configured''), world3)
   \<and> add_portfolio_item mem_create_document None
        (photo ''Interiors'' ''https://example.org/1.jpg'') world3
     = (Inl (HTTPException 500 ''Database not configured''), world3)
   \<and> add_portfolio_bulk mem_create_document None three_photos world3
     = (Inl (HTTPException 500 ''Database not configured''), world3)"
  by (rule database_not_configured)

subsection \<open>Validation\<close>

text \<open>
  C7. The constructor of ContactMessage accepts the fields of a body exactly when the
  name is given and has 2 to 120 characters, the email is given and passes the syntax
  check, the phone is absent or has at most 50 characters, and the message is given and
  has 5 to 5000 characters. The message \<^verbatim>\<open>abcd\<close> is refused whatever the other fields
  are, with the message among the refused fields; the message \<^verbatim>\<open>abcde\<close> is accepted
  exactly when the other three fields are.
\<close>
theorem ContactMessage_validate_accepts:
  "((\<exists>m. ContactMessage_validate email_str nm em ph ms = Inr m) \<longleftrightarrow>
      (\<exists>n. nm = Some n \<and> 2 \<le> length n \<and> length n \<le> 120)
    \<and> (\<exists>e e'. em = Some e \<and> email_str e = Some e')
    \<and> (ph = None \<or> (\<exists>p. ph = Some p \<and> length p \<le> 50))
    \<and> (\<exists>m. ms = Some m \<and> 5 \<le> length m \<and> length m \<le> 5000))
   \<and> ContactMessage_validate email_str nm em ph (Some ''abcd'')
       = Inl (ValidationError (ContactMessage_errors email_str nm em ph (Some ''abcd'')))
   \<and> ''message'' \<in> set (ContactMessage_errors email_str nm em ph (Some ''abcd''))
   \<and> ((\<exists>m. ContactMessage_validate email_str nm em ph (Some ''abcde'') = Inr m) \<longleftrightarrow>
        (\<exists>n. nm = Some n \<and> 2 \<le> length n \<and> length n \<le> 120)
      \<and> (\<exists>e e'. em = Some e \<and> email_str e = Some e')
      \<and> (ph = None \<or> (\<exists>p. ph = Some p \<and> length p \<le> 50)))"
  by (cases nm; cases em; cases ph; cases ms)
     (auto simp: ContactMessage_validate_def ContactMessage_errors_def
           split: option.splits list.splits)

theorem ContactMessage_validate_accepts_witness:
  "ContactMessage_validate has_at_sign (Some ''Ann'') (Some ''ann@example.org'') None
     (Some ''abcde'') = Inr ann
   \<and> ContactMessage_validate has_at_sign (Some ''Ann'') (Some ''ann@example.org'') None
     (Some ''abcd'') = Inl (ValidationError [''message''])"
proof -
  have e: "has_at_sign ''ann@example.org'' = Some ''ann@example.org''"
    by (simp add: has_at_sign_def)
  from ContactMessage_validate_accepts
         [of has_at_sign "Some ''Ann''" "Some ''ann@example.org''" None "Some ''abcde''"]
  have "\<exists>m. ContactMessage_validate has_at_sign (Some ''Ann'') (Some ''ann@example.org'') None
     (Some ''abcde'') = Inr m"
    by (simp add: e)
  then show ?thesis
    by (auto simp: ContactMessage_validate_def ContactMessage_errors_def e ann_def)
qed

lemma PortfolioItem_validate_category:
  assumes "PortfolioItem_validate http_url ti (Some c) sr cap w h = Inr p"
  shows "c \<in> set PortfolioItem_category_values"
proof (rule ccontr)
  assume "c \<notin> set PortfolioItem_category_values"
  then have "PortfolioItem_errors http_url (Some c) sr w h \<noteq> []"
    by (simp add: PortfolioItem_errors_def)
  then obtain e es where "PortfolioItem_errors http_url (Some c) sr w h = e # es"
    by (cases "PortfolioItem_errors http_url (Some c) sr w h") auto
  then have "PortfolioItem_validate http_url ti (Some c) sr cap w h = Inl (ValidationError (e # es))"
    by (simp add: PortfolioItem_validate_def)
  with assms show False by simp
qed

lemma PortfolioItem_validate_accepts_category:
  assumes "http_url u = Some u'" and "c \<in> set PortfolioItem_category_values"
  shows "PortfolioItem_validate http_url None (Some c) (Some u) None None None
             = Inr \<lparr>title = None, category = c, src = u', caption = None,
                    width = None, height = None\<rparr>"
  using assms by (simp add: PortfolioItem_validate_def PortfolioItem_errors_def)

lemma portfolio_categories_same: "portfolio_categories = PortfolioItem_category_values"
  by (simp add: portfolio_categories_def PortfolioItem_category_values_def)

lemma portfolio_categories_six: "length portfolio_categories = 6"
  by (simp add: portfolio_categories_def)

lemma portfolio_categories_distinct: "distinct portfolio_categories"
  by (simp add: portfolio_categories_def)

text \<open>
  C8. The categories endpoint returns a list of its own, with no input: six category
  strings, all different. As a set they are the categories that the category field of
  PortfolioItem accepts, and every category of an item that passes the whole
  validation is among them.
\<close>
theorem portfolio_categories_fixed:
  "length portfolio_categories = 6 \<and> distinct portfolio_categories
   \<and> set portfolio_categories =
       {c. ''category'' \<notin> set (PortfolioItem_errors http_url (Some c) sr w h)}
   \<and> {c. \<exists>ti sr cap w h p. PortfolioItem_validate http_url ti (Some c) sr cap w h = Inr p}
       \<subseteq> set portfolio_categories"
proof -
  have field: "\<And>c. ''category'' \<notin> set (PortfolioItem_errors http_url (Some c) sr w h)
                 \<longleftrightarrow> c \<in> set PortfolioItem_category_values"
    by (simp add: PortfolioItem_errors_def split: option.splits)
  have whole: "{c. \<exists>ti sr cap w h p. PortfolioItem_validate http_url ti (Some c) sr cap w h = Inr p}
       \<subseteq> set PortfolioItem_category_values"
    using PortfolioItem_validate_category by blast
  from field have "set PortfolioItem_category_values =
       {c. ''category'' \<notin> set (PortfolioItem_errors http_url (Some c) sr w h)}"
    by blast
  with whole show ?thesis
    by (simp only: portfolio_categories_same [symmetric] portfolio_categories_six
          portfolio_categories_distinct simp_thms)
qed

theorem portfolio_categories_fixed_witness:
  "''Drone / Aerial'' \<in> set portfolio_categories
   \<and> ''category'' \<notin> set (PortfolioItem_errors has_https (Some ''Drone / Aerial'')
                              (Some ''https://example.org/1.jpg'') None None)
   \<and> ''Bogus'' \<notin> set portfolio_categories
   \<and> ''category'' \<in> set (PortfolioItem_errors has_https (Some ''Bogus'')
                              (Some ''https://example.org/1.jpg'') None None)"
proof -
  have d: "''Drone / Aerial'' \<in> set portfolio_categories"
    by (simp add: portfolio_categories_def)
  have b: "''Bogus'' \<notin> set portfolio_categories"
    by (simp add: portfolio_categories_def)
  from portfolio_categories_fixed
         [of has_https "Some ''https://example.org/1.jpg''" None None]
  have "set portfolio_categories =
          {c. ''category'' \<notin> set (PortfolioItem_errors has_https (Some c)
                                     (Some ''https://example.org/1.jpg'') None None)}"
    by blast
  with d b show ?thesis by blast
qed

text \<open>When the URL check accepts some URL, every listed category is the category of an
  item that passes the whole validation.\<close>

lemma portfolio_categories_all_accepted:
  assumes "http_url u = Some u'" and "c \<in> set portfolio_categories"
  shows "\<exists>p. PortfolioItem_validate http_url None (Some c) (Some u) None None None = Inr p"
  using PortfolioItem_validate_accepts_category [where http_url = http_url and u = u, OF assms(1)]
    assms(2) by (simp add: portfolio_categories_same)

end
